theory Spec2Isabelle
  imports Main
begin

section \<open>The AI image editor: the state of the App component and its handlers\<close>

text \<open>
  The development embeds \<^verbatim>\<open>src/App.tsx\<close>: the seven state hooks of the component as a
  record, the enumeration \<open>AppState\<close> as a datatype, and the handlers
  \<open>handleImageUpload\<close>, \<open>handleSubmit\<close> and \<open>getApiKeyStatus\<close> as functions on them.

  JavaScript strings are modelled as \<open>string\<close>, so a character is one code unit below 256.
  The two remote services and the \<open>FileReader\<close> are not part of the component: they are
  parameters of the model, each a function from its arguments to its outcome.
\<close>

subsection \<open>Data\<close>

datatype AppState = Idle | LoadingDescriptivePrompt | LoadingGeneratedImage | Success | Error

text \<open>A browser \<open>File\<close>: the handlers read only its \<open>type\<close>; the content is what the reader reads.\<close>

record File =
  file_name :: string
  file_type :: string

record ImageFileWithPreview =
  image_file :: File
  previewUrl :: string

text \<open>One field per \<open>useState\<close> hook, \<open>null\<close> as \<open>None\<close>.\<close>

record app =
  uploadedImage :: "ImageFileWithPreview option"
  userPrompt :: string
  isLoading :: bool
  generatedImageUrl :: "string option"
  error :: "string option"
  appState :: AppState
  intermediatePrompt :: "string option"

definition initial :: app where
  "initial = \<lparr>uploadedImage = None, userPrompt = [], isLoading = False,
     generatedImageUrl = None, error = None, appState = Idle, intermediatePrompt = None\<rparr>"

text \<open>
  A thrown value: an object whose \<open>message\<close> is a string or is missing (\<open>undefined\<close>).
\<close>

datatype js_error = JsError (message: "string option")

text \<open>
  What \<open>reader.readAsDataURL\<close> leads to: the call itself throws, or the reader later fires
  \<open>error\<close> and then \<open>loadend\<close> with a \<open>null\<close> result, or it fires \<open>loadend\<close> with the
  data URL as its result.
\<close>

datatype read_outcome = ReadThrows js_error | ReadFails | ReadLoads string

record services =
  readAsDataURL :: "File \<Rightarrow> read_outcome"
  generateDescriptivePrompt :: "string option \<Rightarrow> string \<Rightarrow> string \<Rightarrow> js_error + string"
  generateImageFromPrompt :: "string \<Rightarrow> js_error + string"

subsection \<open>String operations of JavaScript\<close>

text \<open>The white space and line terminators that \<open>String.prototype.trim\<close> strips, below 256.\<close>

definition js_whitespace :: "char \<Rightarrow> bool" where
  "js_whitespace c = (of_char c \<in> {9, 10, 11, 12, 13, 32, 160 :: nat})"

definition trim :: "string \<Rightarrow> string" where
  "trim s = rev (dropWhile js_whitespace (rev (dropWhile js_whitespace s)))"

text \<open>\<open>s.split(c)\<close> for a separator of one character: never the empty list.\<close>

fun split :: "char \<Rightarrow> string \<Rightarrow> string list" where
  "split c [] = [[]]"
| "split c (x # xs) =
     (if x = c then [] # split c xs
      else (case split c xs of [] \<Rightarrow> [[x]] | w # ws \<Rightarrow> (x # w) # ws))"

text \<open>Indexing an array: \<open>undefined\<close> out of range.\<close>

definition index :: "'a list \<Rightarrow> nat \<Rightarrow> 'a option" where
  "index xs i = (if i < length xs then Some (xs ! i) else None)"

text \<open>\<open>s.startsWith(p)\<close>.\<close>

definition startsWith :: "string \<Rightarrow> string \<Rightarrow> bool" where
  "startsWith s p = (take (length p) s = p)"

text \<open>\<open>err.message || fallback\<close>: the fallback for a missing and for an empty message.\<close>

definition message_or :: "js_error \<Rightarrow> string \<Rightarrow> string" where
  "message_or err fallback =
     (case message err of None \<Rightarrow> fallback | Some m \<Rightarrow> if m = [] then fallback else m)"

subsection \<open>Handlers\<close>

definition handleImageUpload :: "File \<Rightarrow> string \<Rightarrow> app \<Rightarrow> app" where
  "handleImageUpload f url s =
     s\<lparr>uploadedImage := Some \<lparr>image_file = f, previewUrl = url\<rparr>,
       generatedImageUrl := None,
       error := None,
       appState := Idle\<rparr>"

definition setUserPrompt :: "string \<Rightarrow> app \<Rightarrow> app" where
  "setUserPrompt v s = s\<lparr>userPrompt := v\<rparr>"

text \<open>
  The blocks of \<open>handleSubmit\<close> that run without suspension. React applies the setter calls
  of one such block together, so each block is one state change.
\<close>

definition reject :: "app \<Rightarrow> app" where
  "reject s = s\<lparr>error := Some ''Please upload an image and provide an editing prompt.''\<rparr>"

definition begin_run :: "app \<Rightarrow> app" where
  "begin_run s =
     s\<lparr>isLoading := True, error := None, generatedImageUrl := None,
       intermediatePrompt := None, appState := LoadingDescriptivePrompt\<rparr>"

definition outer_catch :: "js_error \<Rightarrow> app \<Rightarrow> app" where
  "outer_catch err s =
     s\<lparr>error := Some (message_or err ''An unexpected error occurred.''),
       isLoading := False, appState := Error\<rparr>"

definition onerror :: "app \<Rightarrow> app" where
  "onerror s =
     s\<lparr>error := Some ''Failed to read uploaded image.'', isLoading := False, appState := Error\<rparr>"

definition described :: "string \<Rightarrow> app \<Rightarrow> app" where
  "described descriptivePrompt s =
     s\<lparr>intermediatePrompt := Some descriptivePrompt, appState := LoadingGeneratedImage\<rparr>"

definition generated :: "string \<Rightarrow> app \<Rightarrow> app" where
  "generated imageBytes s =
     s\<lparr>generatedImageUrl := Some (''data:image/jpeg;base64,'' @ imageBytes),
       appState := Success, isLoading := False\<rparr>"

definition inner_catch :: "js_error \<Rightarrow> app \<Rightarrow> app" where
  "inner_catch err s =
     s\<lparr>error := Some (message_or err
          ''Failed to generate image. Please check API key and try again.''),
       appState := Error, isLoading := False\<rparr>"

text \<open>
  What a run does, in order: the states it commits and the service calls it makes.
\<close>

datatype event =
    Commit app
  | CallDescriptivePrompt "string option" string string
  | CallImageFromPrompt string

text \<open>
  \<open>reader.onloadend\<close>, with the image and the prompt that \<open>handleSubmit\<close> captured. On a
  \<open>null\<close> result \<open>split\<close> throws outside the inner \<open>try\<close>: the callback ends there.
\<close>

definition onloadend ::
  "services \<Rightarrow> ImageFileWithPreview \<Rightarrow> string \<Rightarrow> string option \<Rightarrow> app \<Rightarrow> event list" where
  "onloadend sv img prompt result s =
     (case result of
        None \<Rightarrow> []
      | Some base64WithPrefix \<Rightarrow>
          (let base64Data = index (split CHR '','' base64WithPrefix) 1;
               mimeType = file_type (image_file img)
           in CallDescriptivePrompt base64Data mimeType prompt #
              (case generateDescriptivePrompt sv base64Data mimeType prompt of
                 Inl err \<Rightarrow> [Commit (inner_catch err s)]
               | Inr descriptivePrompt \<Rightarrow>
                   (let s1 = described descriptivePrompt s
                    in Commit s1 # CallImageFromPrompt descriptivePrompt #
                       (case generateImageFromPrompt sv descriptivePrompt of
                          Inl err \<Rightarrow> [Commit (inner_catch err s1)]
                        | Inr imageBytes \<Rightarrow> [Commit (generated imageBytes s1)])))))"

definition handleSubmit :: "services \<Rightarrow> app \<Rightarrow> event list" where
  "handleSubmit sv s =
     (case uploadedImage s of
        None \<Rightarrow> [Commit (reject s)]
      | Some img \<Rightarrow>
          if trim (userPrompt s) = [] then [Commit (reject s)]
          else
            (let s1 = begin_run s
             in case readAsDataURL sv (image_file img) of
                  ReadThrows err \<Rightarrow> [Commit (outer_catch err s1)]
                | ReadFails \<Rightarrow>
                    Commit s1 # Commit (onerror s1) # onloadend sv img (userPrompt s) None (onerror s1)
                | ReadLoads r \<Rightarrow>
                    Commit s1 # onloadend sv img (userPrompt s) (Some r) s1))"

text \<open>Reading a run: the committed states, the state at its end, the calls of each service.\<close>

fun commits :: "event list \<Rightarrow> app list" where
  "commits [] = []"
| "commits (Commit s # es) = s # commits es"
| "commits (_ # es) = commits es"

definition final :: "app \<Rightarrow> event list \<Rightarrow> app" where
  "final s es = last (s # commits es)"

fun descriptive_calls :: "event list \<Rightarrow> nat" where
  "descriptive_calls [] = 0"
| "descriptive_calls (CallDescriptivePrompt d m p # es) = Suc (descriptive_calls es)"
| "descriptive_calls (_ # es) = descriptive_calls es"

fun image_calls :: "event list \<Rightarrow> nat" where
  "image_calls [] = 0"
| "image_calls (CallImageFromPrompt p # es) = Suc (image_calls es)"
| "image_calls (_ # es) = image_calls es"

text \<open>The values of \<open>appState\<close> from the state before a run to its end.\<close>

definition pipeline_states :: "app \<Rightarrow> event list \<Rightarrow> AppState list" where
  "pipeline_states s es = map appState (s # commits es)"

subsection \<open>A run with the user acting meanwhile\<close>

text \<open>
  The uploader stays on the page while a run is in flight, and so does the prompt field;
  the submit button is disabled then. So between the blocks of a run the user may upload
  another image or edit the prompt. The run goes on with the image and the prompt that
  \<open>handleSubmit\<close> captured, and its setters act on the state as it is by then.
\<close>

datatype user_action = is_UploadImage: UploadImage File string | EditPrompt string

fun act :: "user_action \<Rightarrow> app \<Rightarrow> app" where
  "act (UploadImage f url) s = handleImageUpload f url s"
| "act (EditPrompt v) s = setUserPrompt v s"

text \<open>The state changes of a list of actions, one after the other, from the state \<open>s\<close>.\<close>

fun acts :: "user_action list \<Rightarrow> app \<Rightarrow> event list" where
  "acts [] s = []"
| "acts (a # as) s = Commit (act a s) # acts as (act a s)"

text \<open>
  \<open>handleSubmit\<close> with the actions that happen during the read (\<open>u0\<close>), while the first
  call is pending (\<open>u1\<close>) and while the second call is pending (\<open>u2\<close>).
\<close>

definition handleSubmit_interleaved ::
  "services \<Rightarrow> user_action list \<Rightarrow> user_action list \<Rightarrow> user_action list \<Rightarrow> app \<Rightarrow> event list"
where
  "handleSubmit_interleaved sv u0 u1 u2 s =
     (case uploadedImage s of
        None \<Rightarrow> [Commit (reject s)]
      | Some img \<Rightarrow>
          if trim (userPrompt s) = [] then [Commit (reject s)]
          else
            (let s1 = begin_run s
             in case readAsDataURL sv (image_file img) of
                  ReadThrows err \<Rightarrow> [Commit (outer_catch err s1)]
                | ReadFails \<Rightarrow> Commit s1 # acts u0 s1 @ [Commit (onerror (fold act u0 s1))]
                | ReadLoads r \<Rightarrow>
                    Commit s1 # acts u0 s1 @
                    (let base64Data = index (split CHR '','' r) 1;
                         mimeType = file_type (image_file img);
                         s2 = fold act u0 s1
                     in CallDescriptivePrompt base64Data mimeType (userPrompt s) #
                        acts u1 s2 @
                        (let s3 = fold act u1 s2
                         in case generateDescriptivePrompt sv base64Data mimeType (userPrompt s) of
                              Inl err \<Rightarrow> [Commit (inner_catch err s3)]
                            | Inr descriptivePrompt \<Rightarrow>
                                (let s4 = described descriptivePrompt s3
                                 in Commit s4 # CallImageFromPrompt descriptivePrompt #
                                    acts u2 s4 @
                                    (let s5 = fold act u2 s4
                                     in case generateImageFromPrompt sv descriptivePrompt of
                                          Inl err \<Rightarrow> [Commit (inner_catch err s5)]
                                        | Inr imageBytes \<Rightarrow>
                                            [Commit (generated imageBytes s5)]))))))"

subsection \<open>Every operation on the state\<close>

text \<open>
  Between two suspensions other handlers may run, so the blocks above can interleave
  with uploads and with edits of the prompt. An operation is one block: the synchronous
  part of \<open>handleSubmit\<close> (with the exception of \<open>readAsDataURL\<close>, if it throws one),
  \<open>reader.onerror\<close>, the continuation after either \<open>await\<close>, and the \<open>catch\<close> of a
  rejected call.
\<close>

datatype operation =
    Upload File string
  | ChangePrompt string
  | Submit "js_error option"
  | ReaderError
  | DescriptionResolved string
  | ImageResolved string
  | CallRejected js_error

fun apply_operation :: "operation \<Rightarrow> app \<Rightarrow> app" where
  "apply_operation (Upload f url) s = handleImageUpload f url s"
| "apply_operation (ChangePrompt v) s = setUserPrompt v s"
| "apply_operation (Submit thrown) s =
     (if uploadedImage s = None \<or> trim (userPrompt s) = [] then reject s
      else (case thrown of None \<Rightarrow> begin_run s | Some err \<Rightarrow> outer_catch err (begin_run s)))"
| "apply_operation ReaderError s = onerror s"
| "apply_operation (DescriptionResolved d) s = described d s"
| "apply_operation (ImageResolved b) s = generated b s"
| "apply_operation (CallRejected err) s = inner_catch err s"

text \<open>The state is never \<open>Success\<close> without a generated image.\<close>

definition succeeded_has_image :: "app \<Rightarrow> bool" where
  "succeeded_has_image s = (appState s = Success \<longrightarrow> generatedImageUrl s \<noteq> None)"

subsection \<open>The API key and what the page shows of it\<close>

text \<open>
  \<open>process\<close>, \<open>process.env\<close> and \<open>process.env.API_KEY\<close> may each be undefined.
\<close>

record ProcessEnv =
  API_KEY :: "string option"

record Process =
  env :: "ProcessEnv option"

definition getApiKeyStatus :: "Process option \<Rightarrow> string" where
  "getApiKeyStatus process =
     (case process of
        None \<Rightarrow> ''API Key not configured. Please set the API_KEY environment variable.''
      | Some p \<Rightarrow>
          (case env p of
             None \<Rightarrow> ''API Key not configured. Please set the API_KEY environment variable.''
           | Some e \<Rightarrow>
               (case API_KEY e of
                  None \<Rightarrow> ''API Key not configured. Please set the API_KEY environment variable.''
                | Some k \<Rightarrow>
                    if k = [] then
                      ''API Key not configured. Please set the API_KEY environment variable.''
                    else if k = ''YOUR_API_KEY'' \<or> length k < 10 then
                      ''API Key seems to be a placeholder. Please configure it correctly.''
                    else ''API Key detected (validation not performed).'')))"

text \<open>The key the environment holds, if it holds one.\<close>

definition api_key :: "Process option \<Rightarrow> string option" where
  "api_key process =
     (case process of None \<Rightarrow> None
      | Some p \<Rightarrow> (case env p of None \<Rightarrow> None | Some e \<Rightarrow> API_KEY e))"

definition with_key :: "string \<Rightarrow> Process option" where
  "with_key k = Some \<lparr>env = Some \<lparr>API_KEY = Some k\<rparr>\<rparr>"

text \<open>
  The line under the title: the status in red, or the ready line in green. The submit
  button exists once an image is uploaded; its \<open>disabled\<close> attribute is the value held.
\<close>

datatype status_line = Warning string | Ready

record view =
  status :: status_line
  submit_disabled :: "bool option"

definition render :: "Process option \<Rightarrow> app \<Rightarrow> view" where
  "render process s =
     (let apiKeyStatus = getApiKeyStatus process
      in \<lparr>status =
            (if startsWith apiKeyStatus ''API Key not'' \<or> startsWith apiKeyStatus ''API Key seems''
             then Warning apiKeyStatus else Ready),
          submit_disabled =
            (case uploadedImage s of
               None \<Rightarrow> None
             | Some img \<Rightarrow> Some (isLoading s \<or> uploadedImage s = None \<or> trim (userPrompt s) = []))\<rparr>)"

subsection \<open>Sample inputs\<close>

definition bicycle :: File where
  "bicycle = \<lparr>file_name = ''bicycle.jpg'', file_type = ''image/jpeg''\<rparr>"

text \<open>The state after the upload of a picture and the typing of an instruction.\<close>

definition ready :: app where
  "ready = setUserPrompt ''make the sky purple'' (handleImageUpload bicycle ''blob:1'' initial)"

definition both_succeed :: services where
  "both_succeed =
     \<lparr>readAsDataURL = (\<lambda>f. ReadLoads ''data:image/jpeg;base64,/9j/4AAQ''),
      generateDescriptivePrompt =
        (\<lambda>d m p. Inr ''A red bicycle on a beach under a purple sky''),
      generateImageFromPrompt = (\<lambda>p. Inr ''QUJD'')\<rparr>"

definition description_fails :: services where
  "description_fails =
     both_succeed\<lparr>generateDescriptivePrompt := (\<lambda>d m p. Inl (JsError (Some ''quota exceeded'')))\<rparr>"

definition image_fails :: services where
  "image_fails =
     \<lparr>readAsDataURL = (\<lambda>f. ReadLoads ''data:image/jpeg;base64,/9j/4AAQ''),
      generateDescriptivePrompt = (\<lambda>d m p. Inr ''A red bicycle on a beach''),
      generateImageFromPrompt = (\<lambda>p. Inl (JsError None))\<rparr>"

definition read_fails :: services where
  "read_fails = both_succeed\<lparr>readAsDataURL := (\<lambda>f. ReadFails)\<rparr>"

definition read_throws :: services where
  "read_throws = both_succeed\<lparr>readAsDataURL := (\<lambda>f. ReadThrows (JsError (Some [])))\<rparr>"

text \<open>The state a run leaves when the second call fails, and the one a run leaves when both succeed.\<close>

definition failed :: app where
  "failed = final ready (handleSubmit image_fails ready)"

definition succeeded :: app where
  "succeeded = final ready (handleSubmit both_succeed ready)"

section \<open>Properties\<close>

subsection \<open>Auxiliary facts\<close>

lemmas blocks = reject_def begin_run_def outer_catch_def onerror_def described_def
  generated_def inner_catch_def

lemma all_dropWhile:
  "(\<forall>x\<in>set (dropWhile P s). P x) \<longleftrightarrow> (\<forall>x\<in>set s. P x)"
proof -
  have "(\<forall>x\<in>set (dropWhile P s). P x) \<longleftrightarrow> dropWhile P (dropWhile P s) = []"
    by (simp only: dropWhile_eq_Nil_conv)
  also have "\<dots> \<longleftrightarrow> (\<forall>x\<in>set s. P x)"
    by (simp only: dropWhile_idem dropWhile_eq_Nil_conv)
  finally show ?thesis .
qed

lemma trim_empty_iff: "trim s = [] \<longleftrightarrow> (\<forall>c\<in>set s. js_whitespace c)"
  by (simp add: trim_def dropWhile_eq_Nil_conv all_dropWhile)

lemma trim_spaces: "trim (replicate n CHR '' '') = []"
  by (simp add: trim_empty_iff js_whitespace_def)

lemma message_or_cases:
  "message_or err fb = (if message err = None \<or> message err = Some [] then fb else the (message err))"
  by (simp add: message_or_def split: option.splits)

text \<open>The trace of \<open>handleSubmit\<close> on each of its paths.\<close>

lemma handleSubmit_invalid:
  "uploadedImage s = None \<or> trim (userPrompt s) = [] \<Longrightarrow> handleSubmit sv s = [Commit (reject s)]"
  by (auto simp: handleSubmit_def split: option.splits)

lemma handleSubmit_throws:
  assumes "uploadedImage s = Some img" and "trim (userPrompt s) \<noteq> []"
    and "readAsDataURL sv (image_file img) = ReadThrows err"
  shows "handleSubmit sv s = [Commit (outer_catch err (begin_run s))]"
  using assms by (simp add: handleSubmit_def Let_def)

lemma handleSubmit_read_fails:
  assumes "uploadedImage s = Some img" and "trim (userPrompt s) \<noteq> []"
    and "readAsDataURL sv (image_file img) = ReadFails"
  shows "handleSubmit sv s = [Commit (begin_run s), Commit (onerror (begin_run s))]"
  using assms by (simp add: handleSubmit_def onloadend_def Let_def)

lemma handleSubmit_loaded:
  assumes "uploadedImage s = Some img" and "trim (userPrompt s) \<noteq> []"
    and "readAsDataURL sv (image_file img) = ReadLoads r"
  shows "handleSubmit sv s =
    Commit (begin_run s) # onloadend sv img (userPrompt s) (Some r) (begin_run s)"
  using assms by (simp add: handleSubmit_def Let_def)

lemma onloadend_both:
  assumes "generateDescriptivePrompt sv (index (split CHR '','' r) 1)
             (file_type (image_file img)) p = Inr d"
    and "generateImageFromPrompt sv d = Inr b"
  shows "onloadend sv img p (Some r) s =
    [CallDescriptivePrompt (index (split CHR '','' r) 1) (file_type (image_file img)) p,
     Commit (described d s), CallImageFromPrompt d, Commit (generated b (described d s))]"
  using assms by (simp add: onloadend_def Let_def)

lemma onloadend_first_fails:
  assumes "generateDescriptivePrompt sv (index (split CHR '','' r) 1)
             (file_type (image_file img)) p = Inl err"
  shows "onloadend sv img p (Some r) s =
    [CallDescriptivePrompt (index (split CHR '','' r) 1) (file_type (image_file img)) p,
     Commit (inner_catch err s)]"
  using assms by (simp add: onloadend_def Let_def)

lemma onloadend_second_fails:
  assumes "generateDescriptivePrompt sv (index (split CHR '','' r) 1)
             (file_type (image_file img)) p = Inr d"
    and "generateImageFromPrompt sv d = Inl err"
  shows "onloadend sv img p (Some r) s =
    [CallDescriptivePrompt (index (split CHR '','' r) 1) (file_type (image_file img)) p,
     Commit (described d s), CallImageFromPrompt d, Commit (inner_catch err (described d s))]"
  using assms by (simp add: onloadend_def Let_def)

text \<open>What the user's actions do to \<open>appState\<close>, and the trace of an interleaved run.\<close>

lemma commits_append: "commits (xs @ ys) = commits xs @ commits ys"
  by (induction xs rule: commits.induct) simp_all

lemma appState_act:
  "appState (act a x) = (if is_UploadImage a then Idle else appState x)"
  by (cases a) (simp_all add: handleImageUpload_def setUserPrompt_def)

lemma acts_idle_or_same:
  "t \<in> set (commits (acts us x)) \<Longrightarrow> appState t = appState x \<or> appState t = Idle"
proof (induction us arbitrary: x)
  case Nil
  then show ?case by simp
next
  case (Cons a us)
  from Cons.prems have "t = act a x \<or> t \<in> set (commits (acts us (act a x)))"
    by simp
  then show ?case
  proof
    assume "t = act a x"
    then show ?thesis by (simp add: appState_act)
  next
    assume "t \<in> set (commits (acts us (act a x)))"
    from Cons.IH [OF this] show ?thesis by (auto simp: appState_act split: if_splits)
  qed
qed

lemma acts_without_upload:
  "\<forall>a \<in> set us. \<not> is_UploadImage a \<Longrightarrow>
     map appState (commits (acts us x)) = replicate (length us) (appState x)
     \<and> appState (fold act us x) = appState x"
  by (induction us arbitrary: x) (simp_all add: appState_act)

lemma remdups_adj_repeat: "remdups_adj (x # replicate n x @ ys) = remdups_adj (x # ys)"
  by (induction n) simp_all

lemma handleSubmit_interleaved_both:
  assumes "uploadedImage s = Some img" and "trim (userPrompt s) \<noteq> []"
    and "readAsDataURL sv (image_file img) = ReadLoads r"
    and "generateDescriptivePrompt sv (index (split CHR '','' r) 1)
           (file_type (image_file img)) (userPrompt s) = Inr d"
    and "generateImageFromPrompt sv d = Inr b"
  shows "handleSubmit_interleaved sv u0 u1 u2 s =
     Commit (begin_run s) # acts u0 (begin_run s) @
     CallDescriptivePrompt (index (split CHR '','' r) 1) (file_type (image_file img))
       (userPrompt s) #
     acts u1 (fold act u0 (begin_run s)) @
     Commit (described d (fold act u1 (fold act u0 (begin_run s)))) #
     CallImageFromPrompt d #
     acts u2 (described d (fold act u1 (fold act u0 (begin_run s)))) @
     [Commit (generated b
        (fold act u2 (described d (fold act u1 (fold act u0 (begin_run s))))))]"
  using assms by (simp add: handleSubmit_interleaved_def Let_def)

lemma handleSubmit_interleaved_none:
  "handleSubmit_interleaved sv [] [] [] s = handleSubmit sv s"
  by (simp add: handleSubmit_interleaved_def handleSubmit_def onloadend_def Let_def
      split: option.splits read_outcome.splits sum.splits)

text \<open>The sample inputs, evaluated.\<close>

lemma ready_eq:
  "ready = \<lparr>uploadedImage = Some \<lparr>image_file = bicycle, previewUrl = ''blob:1''\<rparr>,
     userPrompt = ''make the sky purple'', isLoading = False, generatedImageUrl = None,
     error = None, appState = Idle, intermediatePrompt = None\<rparr>"
  by (simp add: ready_def setUserPrompt_def handleImageUpload_def initial_def)

lemma trim_sample: "trim ''make the sky purple'' = ''make the sky purple''"
  by (simp add: trim_def js_whitespace_def)

lemma split_sample:
  "index (split CHR '','' ''data:image/jpeg;base64,/9j/4AAQ'') 1 = Some ''/9j/4AAQ''"
  by (simp add: index_def)

lemma failed_eq:
  "failed = \<lparr>uploadedImage = Some \<lparr>image_file = bicycle, previewUrl = ''blob:1''\<rparr>,
     userPrompt = ''make the sky purple'', isLoading = False, generatedImageUrl = None,
     error = Some ''Failed to generate image. Please check API key and try again.'',
     appState = Error, intermediatePrompt = Some ''A red bicycle on a beach''\<rparr>"
  by (simp add: failed_def final_def handleSubmit_def onloadend_def image_fails_def ready_eq
      trim_sample blocks message_or_def)

lemma succeeded_eq:
  "succeeded = \<lparr>uploadedImage = Some \<lparr>image_file = bicycle, previewUrl = ''blob:1''\<rparr>,
     userPrompt = ''make the sky purple'', isLoading = False,
     generatedImageUrl = Some ''data:image/jpeg;base64,QUJD'',
     error = None, appState = Success,
     intermediatePrompt = Some ''A red bicycle on a beach under a purple sky''\<rparr>"
  by (simp add: succeeded_def final_def handleSubmit_def onloadend_def both_succeed_def ready_eq
      trim_sample blocks)

subsection \<open>The claims\<close>

text \<open>
  C1, as stated, fails in two ways. \<open>handleSubmit\<close> never sets \<open>Idle\<close>, so a run
  repeated after a failure starts in \<open>Error\<close>: the inputs are valid, the read and both
  calls succeed, and \<open>Idle\<close> is not in the sequence. And an image uploaded while the second
  call is pending sets \<open>Idle\<close> there: the run from \<open>Idle\<close> then goes on from \<open>Idle\<close>
  to \<open>Success\<close>.
\<close>

theorem rerun_from_error_counterexample:
  "uploadedImage failed \<noteq> None \<and> trim (userPrompt failed) \<noteq> []
   \<and> pipeline_states failed (handleSubmit both_succeed failed)
       = [Error, LoadingDescriptivePrompt, LoadingGeneratedImage, Success]
   \<and> pipeline_states failed (handleSubmit both_succeed failed)
       \<noteq> [Idle, LoadingDescriptivePrompt, LoadingGeneratedImage, Success]
   \<and> pipeline_states ready
        (handleSubmit_interleaved both_succeed [] [] [UploadImage bicycle ''blob:2''] ready)
       = [Idle, LoadingDescriptivePrompt, LoadingGeneratedImage, Idle, Success]"
  by (simp add: pipeline_states_def handleSubmit_def onloadend_def handleSubmit_interleaved_def
      both_succeed_def failed_eq ready_eq trim_sample blocks handleImageUpload_def)

text \<open>
  C1 (amended). Take a valid input (image present, instruction not empty after trimming)
  and a run on it in which the read and both remote calls succeed.
  \<^item> The run itself sets \<open>LoadingDescriptivePrompt\<close>, \<open>LoadingGeneratedImage\<close> and
    \<open>Success\<close>, in this order, none skipped; whatever else \<open>appState\<close> is in between is
    the state after an action of the user, which is \<open>Idle\<close> after an upload and the state
    before it after an edit of the prompt.
  \<^item> When no image is uploaded while the run is in flight (no second run starts then, the
    submit button being disabled), \<open>appState\<close> passes through exactly: the state the
    run started in, \<open>LoadingDescriptivePrompt\<close>, \<open>LoadingGeneratedImage\<close>, \<open>Success\<close>
    (an edit of the prompt repeats the current state). So such a run from \<open>Idle\<close> goes \<open>Idle\<close>, \<open>LoadingDescriptivePrompt\<close>,
    \<open>LoadingGeneratedImage\<close>, \<open>Success\<close>, and \<open>Idle\<close> is not followed by \<open>Success\<close> or
    \<open>Error\<close> in it.
  \<^item> With no action of the user at all, the run is the trace of \<open>handleSubmit\<close>.
\<close>

theorem double_success_states:
  assumes "uploadedImage s = Some img" and "trim (userPrompt s) \<noteq> []"
    and "readAsDataURL sv (image_file img) = ReadLoads r"
    and "generateDescriptivePrompt sv (index (split CHR '','' r) 1)
           (file_type (image_file img)) (userPrompt s) = Inr d"
    and "generateImageFromPrompt sv d = Inr b"
  shows "pipeline_states s (handleSubmit_interleaved sv u0 u1 u2 s) =
       appState s # LoadingDescriptivePrompt #
       map appState (commits (acts u0 (begin_run s))) @
       map appState (commits (acts u1 (fold act u0 (begin_run s)))) @
       LoadingGeneratedImage #
       map appState
         (commits (acts u2 (described d (fold act u1 (fold act u0 (begin_run s)))))) @
       [Success]
     \<and> (\<forall>t \<in> set (commits (acts us x)). appState t = appState x \<or> appState t = Idle)
     \<and> ((\<forall>a \<in> set (u0 @ u1 @ u2). \<not> is_UploadImage a) \<longrightarrow>
          pipeline_states s (handleSubmit_interleaved sv u0 u1 u2 s) =
            appState s # LoadingDescriptivePrompt #
            replicate (length u0 + length u1) LoadingDescriptivePrompt @
            LoadingGeneratedImage # replicate (length u2) LoadingGeneratedImage @ [Success]
          \<and> remdups_adj (pipeline_states s (handleSubmit_interleaved sv u0 u1 u2 s)) =
              remdups_adj
                [appState s, LoadingDescriptivePrompt, LoadingGeneratedImage, Success])
     \<and> handleSubmit_interleaved sv [] [] [] s = handleSubmit sv s
     \<and> pipeline_states s (handleSubmit sv s) =
          [appState s, LoadingDescriptivePrompt, LoadingGeneratedImage, Success]"
proof (intro conjI impI ballI)
  let ?s1 = "begin_run s"
  let ?s2 = "fold act u0 ?s1"
  let ?s3 = "fold act u1 ?s2"
  let ?s4 = "described d ?s3"
  show general: "pipeline_states s (handleSubmit_interleaved sv u0 u1 u2 s) =
       appState s # LoadingDescriptivePrompt #
       map appState (commits (acts u0 ?s1)) @ map appState (commits (acts u1 ?s2)) @
       LoadingGeneratedImage # map appState (commits (acts u2 ?s4)) @ [Success]"
    by (simp add: handleSubmit_interleaved_both [OF assms] pipeline_states_def commits_append
        blocks)
  show alone: "pipeline_states s (handleSubmit sv s) =
      [appState s, LoadingDescriptivePrompt, LoadingGeneratedImage, Success]"
    by (simp add: handleSubmit_loaded [OF assms(1-3)] onloadend_both [OF assms(4,5)]
        pipeline_states_def blocks)
  show "handleSubmit_interleaved sv [] [] [] s = handleSubmit sv s"
    by (rule handleSubmit_interleaved_none)
  {
    assume none: "\<forall>a \<in> set (u0 @ u1 @ u2). \<not> is_UploadImage a"
    then have n0: "\<forall>a \<in> set u0. \<not> is_UploadImage a"
      and n1: "\<forall>a \<in> set u1. \<not> is_UploadImage a"
      and n2: "\<forall>a \<in> set u2. \<not> is_UploadImage a"
      by simp_all
    have a1: "appState ?s1 = LoadingDescriptivePrompt" by (simp add: begin_run_def)
    have a2: "appState ?s2 = LoadingDescriptivePrompt"
      using acts_without_upload [OF n0, of ?s1] a1 by simp
    have a4: "appState ?s4 = LoadingGeneratedImage" by (simp add: described_def)
    have m0: "map appState (commits (acts u0 ?s1)) = replicate (length u0) LoadingDescriptivePrompt"
      using acts_without_upload [OF n0, of ?s1] a1 by simp
    have m1: "map appState (commits (acts u1 ?s2)) = replicate (length u1) LoadingDescriptivePrompt"
      using acts_without_upload [OF n1, of ?s2] a2 by simp
    have m2: "map appState (commits (acts u2 ?s4)) = replicate (length u2) LoadingGeneratedImage"
      using acts_without_upload [OF n2, of ?s4] a4 by simp
    show exact: "pipeline_states s (handleSubmit_interleaved sv u0 u1 u2 s) =
        appState s # LoadingDescriptivePrompt #
        replicate (length u0 + length u1) LoadingDescriptivePrompt @
        LoadingGeneratedImage # replicate (length u2) LoadingGeneratedImage @ [Success]"
      by (simp add: general m0 m1 m2 replicate_add)
    have "remdups_adj (appState s # LoadingDescriptivePrompt #
        replicate (length u0 + length u1) LoadingDescriptivePrompt @
        LoadingGeneratedImage # replicate (length u2) LoadingGeneratedImage @ [Success])
      = remdups_adj [appState s, LoadingDescriptivePrompt, LoadingGeneratedImage, Success]"
      using remdups_adj_repeat [of LoadingDescriptivePrompt "length u0 + length u1"
          "LoadingGeneratedImage # replicate (length u2) LoadingGeneratedImage @ [Success]"]
        remdups_adj_repeat [of LoadingGeneratedImage "length u2" "[Success]"]
      by simp
    then show "remdups_adj (pipeline_states s (handleSubmit_interleaved sv u0 u1 u2 s)) =
        remdups_adj [appState s, LoadingDescriptivePrompt, LoadingGeneratedImage, Success]"
      by (simp only: exact)
  }
next
  fix t
  assume "t \<in> set (commits (acts us x))"
  then show "appState t = appState x \<or> appState t = Idle"
    by (rule acts_idle_or_same)
qed

theorem double_success_states_witness:
  "uploadedImage ready = Some \<lparr>image_file = bicycle, previewUrl = ''blob:1''\<rparr>
   \<and> trim (userPrompt ready) \<noteq> []
   \<and> pipeline_states ready (handleSubmit both_succeed ready) =
       [Idle, LoadingDescriptivePrompt, LoadingGeneratedImage, Success]
   \<and> \<not> is_UploadImage (EditPrompt ''make the sky green'')
   \<and> pipeline_states ready
        (handleSubmit_interleaved both_succeed [] [EditPrompt ''make the sky green''] [] ready) =
       [Idle, LoadingDescriptivePrompt, LoadingDescriptivePrompt, LoadingGeneratedImage, Success]
   \<and> remdups_adj (pipeline_states ready
        (handleSubmit_interleaved both_succeed [] [EditPrompt ''make the sky green''] [] ready)) =
       [Idle, LoadingDescriptivePrompt, LoadingGeneratedImage, Success]
   \<and> pipeline_states ready
        (handleSubmit_interleaved both_succeed [] [] [UploadImage bicycle ''blob:2''] ready) =
       [Idle, LoadingDescriptivePrompt, LoadingGeneratedImage, Idle, Success]"
  using
    double_success_states [where s = ready
      and img = "\<lparr>image_file = bicycle, previewUrl = ''blob:1''\<rparr>"
      and sv = both_succeed and r = "''data:image/jpeg;base64,/9j/4AAQ''"
      and d = "''A red bicycle on a beach under a purple sky''" and b = "''QUJD''"
      and ?u0.0 = "[]" and ?u1.0 = "[EditPrompt ''make the sky green'']" and ?u2.0 = "[]"
      and us = "[]" and x = ready]
    double_success_states [where s = ready
      and img = "\<lparr>image_file = bicycle, previewUrl = ''blob:1''\<rparr>"
      and sv = both_succeed and r = "''data:image/jpeg;base64,/9j/4AAQ''"
      and d = "''A red bicycle on a beach under a purple sky''" and b = "''QUJD''"
      and ?u0.0 = "[]" and ?u1.0 = "[]" and ?u2.0 = "[UploadImage bicycle ''blob:2'']"
      and us = "[]" and x = ready]
  by (simp add: ready_eq trim_sample both_succeed_def handleImageUpload_def setUserPrompt_def
      blocks)

text \<open>
  C2. When the image is absent or the instruction is empty or white space only, the run
  ends at once with the validation message: neither service is called, and \<open>appState\<close>
  is what it was. An instruction of \<open>n\<close> spaces, from none (the empty instruction)
  upwards, fails the same way from any state \<open>t\<close>: one state change, to the message.
\<close>

theorem validation_failure:
  assumes "uploadedImage s = None \<or> trim (userPrompt s) = []"
  shows "handleSubmit sv s = [Commit (reject s)]
     \<and> descriptive_calls (handleSubmit sv s) = 0
     \<and> image_calls (handleSubmit sv s) = 0
     \<and> appState (final s (handleSubmit sv s)) = appState s
     \<and> final s (handleSubmit sv s)
          = s\<lparr>error := Some ''Please upload an image and provide an editing prompt.''\<rparr>
     \<and> handleSubmit sv (t\<lparr>userPrompt := replicate n CHR '' ''\<rparr>)
          = [Commit (reject (t\<lparr>userPrompt := replicate n CHR '' ''\<rparr>))]"
proof -
  have spaces: "handleSubmit sv (t\<lparr>userPrompt := replicate n CHR '' ''\<rparr>)
      = [Commit (reject (t\<lparr>userPrompt := replicate n CHR '' ''\<rparr>))]"
    by (rule handleSubmit_invalid) (simp add: trim_spaces)
  show ?thesis
    by (simp add: handleSubmit_invalid [OF assms] spaces final_def reject_def)
qed

theorem validation_failure_witness:
  "trim (userPrompt (setUserPrompt ''   '' ready)) = []
   \<and> handleSubmit both_succeed (setUserPrompt ''   '' ready)
       = [Commit (reject (setUserPrompt ''   '' ready))]
   \<and> appState (final (setUserPrompt ''   '' ready)
        (handleSubmit both_succeed (setUserPrompt ''   '' ready))) = Idle
   \<and> error (final (setUserPrompt ''   '' ready)
        (handleSubmit both_succeed (setUserPrompt ''   '' ready)))
       = Some ''Please upload an image and provide an editing prompt.''"
  using validation_failure [where s = "setUserPrompt ''   '' ready" and sv = both_succeed
      and t = ready and n = 0]
  by (simp add: ready_eq setUserPrompt_def trim_def js_whitespace_def final_def reject_def)

text \<open>
  C3. When the descriptive-prompt call fails, the image-generation service is not called
  at all, the run ends in \<open>Error\<close>, and the message shown is the one of the error when it
  has a non-empty one, the generic message otherwise.
\<close>

theorem description_failure:
  assumes "uploadedImage s = Some img" and "trim (userPrompt s) \<noteq> []"
    and "readAsDataURL sv (image_file img) = ReadLoads r"
    and "generateDescriptivePrompt sv (index (split CHR '','' r) 1)
           (file_type (image_file img)) (userPrompt s) = Inl err"
  shows "image_calls (handleSubmit sv s) = 0
     \<and> descriptive_calls (handleSubmit sv s) = 1
     \<and> pipeline_states s (handleSubmit sv s) = [appState s, LoadingDescriptivePrompt, Error]
     \<and> appState (final s (handleSubmit sv s)) = Error
     \<and> error (final s (handleSubmit sv s)) =
         Some (if message err = None \<or> message err = Some []
               then ''Failed to generate image. Please check API key and try again.''
               else the (message err))"
  by (simp add: handleSubmit_loaded [OF assms(1-3)] onloadend_first_fails [OF assms(4)]
      pipeline_states_def final_def blocks message_or_cases)

theorem description_failure_witness:
  "uploadedImage ready = Some \<lparr>image_file = bicycle, previewUrl = ''blob:1''\<rparr>
   \<and> trim (userPrompt ready) \<noteq> []
   \<and> image_calls (handleSubmit description_fails ready) = 0
   \<and> appState (final ready (handleSubmit description_fails ready)) = Error
   \<and> error (final ready (handleSubmit description_fails ready)) = Some ''quota exceeded''"
  using description_failure [of ready "\<lparr>image_file = bicycle, previewUrl = ''blob:1''\<rparr>"
      description_fails "''data:image/jpeg;base64,/9j/4AAQ''" "JsError (Some ''quota exceeded'')"]
  by (simp add: ready_eq trim_sample description_fails_def both_succeed_def)

text \<open>
  C4. When the descriptive-prompt call succeeds and the image-generation call fails, the
  run ends in \<open>Error\<close> with no generated image, and no state of the run holds one.
\<close>

theorem image_failure:
  assumes "uploadedImage s = Some img" and "trim (userPrompt s) \<noteq> []"
    and "readAsDataURL sv (image_file img) = ReadLoads r"
    and "generateDescriptivePrompt sv (index (split CHR '','' r) 1)
           (file_type (image_file img)) (userPrompt s) = Inr d"
    and "generateImageFromPrompt sv d = Inl err"
  shows "appState (final s (handleSubmit sv s)) = Error
     \<and> generatedImageUrl (final s (handleSubmit sv s)) = None
     \<and> (\<forall>t \<in> set (commits (handleSubmit sv s)). generatedImageUrl t = None)
     \<and> intermediatePrompt (final s (handleSubmit sv s)) = Some d"
  by (simp add: handleSubmit_loaded [OF assms(1-3)] onloadend_second_fails [OF assms(4,5)]
      final_def blocks)

theorem image_failure_witness:
  "uploadedImage ready = Some \<lparr>image_file = bicycle, previewUrl = ''blob:1''\<rparr>
   \<and> trim (userPrompt ready) \<noteq> []
   \<and> generateDescriptivePrompt image_fails (Some ''/9j/4AAQ'') ''image/jpeg''
        ''make the sky purple'' = Inr ''A red bicycle on a beach''
   \<and> appState (final ready (handleSubmit image_fails ready)) = Error
   \<and> generatedImageUrl (final ready (handleSubmit image_fails ready)) = None"
  using image_failure [of ready "\<lparr>image_file = bicycle, previewUrl = ''blob:1''\<rparr>"
      image_fails "''data:image/jpeg;base64,/9j/4AAQ''" "''A red bicycle on a beach''"
      "JsError None"]
  by (simp add: ready_eq trim_sample image_fails_def)

text \<open>
  C5. When both calls succeed and the image-generation service returns \<open>b\<close>, the run ends
  in \<open>Success\<close> and the image shown is \<open>data:image/jpeg;base64,\<close> followed by \<open>b\<close>.
\<close>

theorem success_data_uri:
  assumes "uploadedImage s = Some img" and "trim (userPrompt s) \<noteq> []"
    and "readAsDataURL sv (image_file img) = ReadLoads r"
    and "generateDescriptivePrompt sv (index (split CHR '','' r) 1)
           (file_type (image_file img)) (userPrompt s) = Inr d"
    and "generateImageFromPrompt sv d = Inr b"
  shows "generatedImageUrl (final s (handleSubmit sv s)) = Some (''data:image/jpeg;base64,'' @ b)
     \<and> appState (final s (handleSubmit sv s)) = Success"
  by (simp add: handleSubmit_loaded [OF assms(1-3)] onloadend_both [OF assms(4,5)]
      final_def blocks)

theorem success_data_uri_witness:
  "uploadedImage ready = Some \<lparr>image_file = bicycle, previewUrl = ''blob:1''\<rparr>
   \<and> trim (userPrompt ready) \<noteq> []
   \<and> generatedImageUrl (final ready (handleSubmit both_succeed ready))
        = Some ''data:image/jpeg;base64,QUJD''
   \<and> appState (final ready (handleSubmit both_succeed ready)) = Success"
  using success_data_uri [of ready "\<lparr>image_file = bicycle, previewUrl = ''blob:1''\<rparr>"
      both_succeed "''data:image/jpeg;base64,/9j/4AAQ''"
      "''A red bicycle on a beach under a purple sky''" "''QUJD''"]
  by (simp add: ready_eq trim_sample both_succeed_def)

text \<open>
  C6, as stated, fails for the validation error: the guard of \<open>handleSubmit\<close> sets the
  message and returns, and \<open>appState\<close> stays what it was, here \<open>Idle\<close>.
\<close>

theorem validation_not_failed_counterexample:
  "uploadedImage initial = None
   \<and> error (final initial (handleSubmit both_succeed initial))
       = Some ''Please upload an image and provide an editing prompt.''
   \<and> appState (final initial (handleSubmit both_succeed initial)) = Idle
   \<and> appState (final initial (handleSubmit both_succeed initial)) \<noteq> Error"
  by (simp add: handleSubmit_def initial_def final_def reject_def)

text \<open>
  C6 (amended). Every error produces a message, and every error but the validation error
  sets \<open>appState\<close> to \<open>Error\<close>:
  \<^item> a validation error shows its fixed message and leaves \<open>appState\<close> unchanged;
  \<^item> an exception of \<open>readAsDataURL\<close> ends in \<open>Error\<close> with the exception's message, or with
    \<open>An unexpected error occurred.\<close> when that is missing or empty;
  \<^item> a failed read ends in \<open>Error\<close> with \<open>Failed to read uploaded image.\<close>;
  \<^item> a failed call of either service ends in \<open>Error\<close> with the error's message, or with the
    generic message when that is missing or empty.
\<close>

theorem errors_reported:
  assumes "uploadedImage s = Some img" and "trim (userPrompt s) \<noteq> []"
  shows "(uploadedImage t = None \<or> trim (userPrompt t) = [] \<longrightarrow>
            error (final t (handleSubmit sv t))
              = Some ''Please upload an image and provide an editing prompt.''
            \<and> appState (final t (handleSubmit sv t)) = appState t)
     \<and> (readAsDataURL sv (image_file img) = ReadThrows err \<longrightarrow>
            appState (final s (handleSubmit sv s)) = Error
            \<and> error (final s (handleSubmit sv s)) =
                Some (if message err = None \<or> message err = Some []
                      then ''An unexpected error occurred.'' else the (message err)))
     \<and> (readAsDataURL sv (image_file img) = ReadFails \<longrightarrow>
            appState (final s (handleSubmit sv s)) = Error
            \<and> error (final s (handleSubmit sv s)) = Some ''Failed to read uploaded image.'')
     \<and> (readAsDataURL sv (image_file img) = ReadLoads r
          \<and> (generateDescriptivePrompt sv (index (split CHR '','' r) 1)
                 (file_type (image_file img)) (userPrompt s) = Inl err
               \<or> (generateDescriptivePrompt sv (index (split CHR '','' r) 1)
                     (file_type (image_file img)) (userPrompt s) = Inr d
                   \<and> generateImageFromPrompt sv d = Inl err)) \<longrightarrow>
            appState (final s (handleSubmit sv s)) = Error
            \<and> error (final s (handleSubmit sv s)) =
                Some (if message err = None \<or> message err = Some []
                      then ''Failed to generate image. Please check API key and try again.''
                      else the (message err)))"
proof (intro conjI impI)
  assume inv: "uploadedImage t = None \<or> trim (userPrompt t) = []"
  show "error (final t (handleSubmit sv t))
      = Some ''Please upload an image and provide an editing prompt.''"
    by (simp add: handleSubmit_invalid [OF inv] final_def reject_def)
  show "appState (final t (handleSubmit sv t)) = appState t"
    by (simp add: handleSubmit_invalid [OF inv] final_def reject_def)
next
  assume th: "readAsDataURL sv (image_file img) = ReadThrows err"
  show "appState (final s (handleSubmit sv s)) = Error"
    by (simp add: handleSubmit_throws [OF assms th] final_def blocks)
  show "error (final s (handleSubmit sv s)) =
      Some (if message err = None \<or> message err = Some []
            then ''An unexpected error occurred.'' else the (message err))"
    by (simp add: handleSubmit_throws [OF assms th] final_def blocks message_or_cases)
next
  assume rf: "readAsDataURL sv (image_file img) = ReadFails"
  show "appState (final s (handleSubmit sv s)) = Error"
    by (simp add: handleSubmit_read_fails [OF assms rf] final_def blocks)
  show "error (final s (handleSubmit sv s)) = Some ''Failed to read uploaded image.''"
    by (simp add: handleSubmit_read_fails [OF assms rf] final_def blocks)
next
  assume sf: "readAsDataURL sv (image_file img) = ReadLoads r
      \<and> (generateDescriptivePrompt sv (index (split CHR '','' r) 1)
             (file_type (image_file img)) (userPrompt s) = Inl err
           \<or> (generateDescriptivePrompt sv (index (split CHR '','' r) 1)
                 (file_type (image_file img)) (userPrompt s) = Inr d
               \<and> generateImageFromPrompt sv d = Inl err))"
  then have ld: "readAsDataURL sv (image_file img) = ReadLoads r" by simp
  from sf have ends: "commits (handleSubmit sv s) = [begin_run s, inner_catch err (begin_run s)]
      \<or> commits (handleSubmit sv s) = [begin_run s, described d (begin_run s),
            inner_catch err (described d (begin_run s))]"
    by (auto simp: handleSubmit_loaded [OF assms ld] onloadend_first_fails
        onloadend_second_fails)
  then show "appState (final s (handleSubmit sv s)) = Error"
    by (auto simp: final_def blocks)
  from ends show "error (final s (handleSubmit sv s)) =
      Some (if message err = None \<or> message err = Some []
            then ''Failed to generate image. Please check API key and try again.''
            else the (message err))"
    by (auto simp: final_def blocks message_or_cases)
qed

theorem errors_reported_witness:
  "uploadedImage ready = Some \<lparr>image_file = bicycle, previewUrl = ''blob:1''\<rparr>
   \<and> trim (userPrompt ready) \<noteq> []
   \<and> appState (final ready (handleSubmit read_throws ready)) = Error
   \<and> error (final ready (handleSubmit read_throws ready)) = Some ''An unexpected error occurred.''
   \<and> appState (final ready (handleSubmit read_fails ready)) = Error
   \<and> error (final ready (handleSubmit read_fails ready)) = Some ''Failed to read uploaded image.''
   \<and> appState (final ready (handleSubmit description_fails ready)) = Error
   \<and> error (final ready (handleSubmit description_fails ready)) = Some ''quota exceeded''
   \<and> appState (final ready (handleSubmit image_fails ready)) = Error
   \<and> error (final ready (handleSubmit image_fails ready))
       = Some ''Failed to generate image. Please check API key and try again.''
   \<and> appState (final initial (handleSubmit both_succeed initial)) = Idle
   \<and> error (final initial (handleSubmit both_succeed initial))
       = Some ''Please upload an image and provide an editing prompt.''"
  using
    errors_reported [where s = ready and img = "\<lparr>image_file = bicycle, previewUrl = ''blob:1''\<rparr>"
      and sv = read_throws and err = "JsError (Some [])" and t = initial]
    errors_reported [where s = ready and img = "\<lparr>image_file = bicycle, previewUrl = ''blob:1''\<rparr>"
      and sv = read_fails and t = initial]
    errors_reported [where s = ready and img = "\<lparr>image_file = bicycle, previewUrl = ''blob:1''\<rparr>"
      and sv = description_fails and err = "JsError (Some ''quota exceeded'')"
      and r = "''data:image/jpeg;base64,/9j/4AAQ''" and t = initial]
    errors_reported [where s = ready and img = "\<lparr>image_file = bicycle, previewUrl = ''blob:1''\<rparr>"
      and sv = image_fails and err = "JsError None" and d = "''A red bicycle on a beach''"
      and r = "''data:image/jpeg;base64,/9j/4AAQ''" and t = initial]
    errors_reported [where s = ready and img = "\<lparr>image_file = bicycle, previewUrl = ''blob:1''\<rparr>"
      and sv = both_succeed and t = initial]
  by (simp add: ready_eq trim_sample read_throws_def read_fails_def description_fails_def
      image_fails_def both_succeed_def initial_def)

text \<open>
  C7. A run repeated from a state left by a failed run, on valid inputs and with the read
  and both calls succeeding, ends in \<open>Success\<close> with nothing left of the failed one: its
  first step clears the error message and the intermediate prompt, no state of the run
  holds an error message, and the prompt and the image at the end are the new ones.
\<close>

theorem rerun_no_residue:
  assumes "appState s = Error"
    and "uploadedImage s = Some img" and "trim (userPrompt s) \<noteq> []"
    and "readAsDataURL sv (image_file img) = ReadLoads r"
    and "generateDescriptivePrompt sv (index (split CHR '','' r) 1)
           (file_type (image_file img)) (userPrompt s) = Inr d"
    and "generateImageFromPrompt sv d = Inr b"
  shows "commits (handleSubmit sv s)
           = [begin_run s, described d (begin_run s), generated b (described d (begin_run s))]
     \<and> error (begin_run s) = None \<and> intermediatePrompt (begin_run s) = None
     \<and> generatedImageUrl (begin_run s) = None
     \<and> (\<forall>t \<in> set (commits (handleSubmit sv s)).
           error t = None \<and> (intermediatePrompt t = None \<or> intermediatePrompt t = Some d))
     \<and> appState (final s (handleSubmit sv s)) = Success
     \<and> error (final s (handleSubmit sv s)) = None
     \<and> intermediatePrompt (final s (handleSubmit sv s)) = Some d
     \<and> generatedImageUrl (final s (handleSubmit sv s)) = Some (''data:image/jpeg;base64,'' @ b)
     \<and> isLoading (final s (handleSubmit sv s)) = False"
  by (simp add: handleSubmit_loaded [OF assms(2-4)] onloadend_both [OF assms(5,6)]
      final_def blocks)

theorem rerun_no_residue_witness:
  "appState failed = Error
   \<and> error failed = Some ''Failed to generate image. Please check API key and try again.''
   \<and> intermediatePrompt failed = Some ''A red bicycle on a beach''
   \<and> trim (userPrompt failed) \<noteq> []
   \<and> appState (final failed (handleSubmit both_succeed failed)) = Success
   \<and> error (final failed (handleSubmit both_succeed failed)) = None
   \<and> intermediatePrompt (final failed (handleSubmit both_succeed failed))
       = Some ''A red bicycle on a beach under a purple sky''
   \<and> generatedImageUrl (final failed (handleSubmit both_succeed failed))
       = Some ''data:image/jpeg;base64,QUJD''"
  using rerun_no_residue [of failed "\<lparr>image_file = bicycle, previewUrl = ''blob:1''\<rparr>"
      both_succeed "''data:image/jpeg;base64,/9j/4AAQ''"
      "''A red bicycle on a beach under a purple sky''" "''QUJD''"]
  by (simp add: failed_eq trim_sample both_succeed_def)

text \<open>
  C8, as stated, fails at the key \<open>YOUR_API_KEY\<close>: it has twelve characters, and
  \<open>getApiKeyStatus\<close> compares the key with this very string and reports a placeholder.
\<close>

theorem your_api_key_counterexample:
  "10 \<le> length ''YOUR_API_KEY''
   \<and> getApiKeyStatus (with_key ''YOUR_API_KEY'')
       = ''API Key seems to be a placeholder. Please configure it correctly.''
   \<and> getApiKeyStatus (with_key ''YOUR_API_KEY'')
       \<noteq> ''API Key detected (validation not performed).''
   \<and> status (render (with_key ''YOUR_API_KEY'') ready)
       = Warning ''API Key seems to be a placeholder. Please configure it correctly.''"
  by (simp add: getApiKeyStatus_def with_key_def render_def startsWith_def)

text \<open>
  C8 (amended). Every key of at least ten characters other than \<open>YOUR_API_KEY\<close> is
  reported as detected, and the page shows the ready line. When the key is absent or empty
  the page shows the not-configured status as a warning; when it is \<open>YOUR_API_KEY\<close> or
  shorter than ten characters, the placeholder status. The warning blocks nothing: whether
  the submit button exists and whether it is disabled depends on the image, the
  instruction and the loading flag only, whatever the environment, and \<open>handleSubmit\<close>
  does not read the key at all.
\<close>

theorem api_key_status:
  "(api_key process = Some k \<and> 10 \<le> length k \<and> k \<noteq> ''YOUR_API_KEY'' \<longrightarrow>
      getApiKeyStatus process = ''API Key detected (validation not performed).''
      \<and> status (render process s) = Ready)
   \<and> (api_key process = None \<or> api_key process = Some [] \<longrightarrow>
      status (render process s)
        = Warning ''API Key not configured. Please set the API_KEY environment variable.'')
   \<and> (api_key process = Some k \<and> k \<noteq> [] \<and> (k = ''YOUR_API_KEY'' \<or> length k < 10) \<longrightarrow>
      status (render process s)
        = Warning ''API Key seems to be a placeholder. Please configure it correctly.'')
   \<and> submit_disabled (render process s)
        = (if uploadedImage s = None then None
           else Some (isLoading s \<or> trim (userPrompt s) = []))"
proof (intro conjI impI)
  assume "api_key process = Some k \<and> 10 \<le> length k \<and> k \<noteq> ''YOUR_API_KEY''"
  then have ok: "getApiKeyStatus process = ''API Key detected (validation not performed).''"
    by (auto simp: getApiKeyStatus_def api_key_def split: option.splits)
  then show "getApiKeyStatus process = ''API Key detected (validation not performed).''" .
  from ok show "status (render process s) = Ready"
    by (simp add: render_def startsWith_def)
next
  assume "api_key process = None \<or> api_key process = Some []"
  then have "getApiKeyStatus process
      = ''API Key not configured. Please set the API_KEY environment variable.''"
    by (auto simp: getApiKeyStatus_def api_key_def split: option.splits)
  then show "status (render process s)
      = Warning ''API Key not configured. Please set the API_KEY environment variable.''"
    by (simp add: render_def startsWith_def)
next
  assume "api_key process = Some k \<and> k \<noteq> [] \<and> (k = ''YOUR_API_KEY'' \<or> length k < 10)"
  then have "getApiKeyStatus process
      = ''API Key seems to be a placeholder. Please configure it correctly.''"
    by (auto simp: getApiKeyStatus_def api_key_def split: option.splits)
  then show "status (render process s)
      = Warning ''API Key seems to be a placeholder. Please configure it correctly.''"
    by (simp add: render_def startsWith_def)
next
  show "submit_disabled (render process s)
      = (if uploadedImage s = None then None
         else Some (isLoading s \<or> trim (userPrompt s) = []))"
    by (simp add: render_def Let_def split: option.splits)
qed

theorem api_key_status_witness:
  "api_key (with_key ''AIzaSyA-1234567890'') = Some ''AIzaSyA-1234567890''
   \<and> 10 \<le> length ''AIzaSyA-1234567890''
   \<and> getApiKeyStatus (with_key ''AIzaSyA-1234567890'')
       = ''API Key detected (validation not performed).''
   \<and> status (render (with_key ''AIzaSyA-1234567890'') ready) = Ready
   \<and> api_key None = None
   \<and> status (render None ready)
       = Warning ''API Key not configured. Please set the API_KEY environment variable.''
   \<and> submit_disabled (render None ready) = Some False
   \<and> api_key (with_key ''abc'') = Some ''abc''
   \<and> status (render (with_key ''abc'') ready)
       = Warning ''API Key seems to be a placeholder. Please configure it correctly.''
   \<and> submit_disabled (render (with_key ''abc'') ready) = Some False"
  using
    api_key_status [of "with_key ''AIzaSyA-1234567890''" "''AIzaSyA-1234567890''" ready]
    api_key_status [of None "''abc''" ready]
    api_key_status [of "with_key ''abc''" "''abc''" ready]
  by (simp add: api_key_def with_key_def ready_eq trim_sample)

text \<open>
  C9. \<open>handleImageUpload\<close> replaces the uploaded image, clears the generated image and the
  error message and sets the state to \<open>Idle\<close>; the instruction text and the intermediate
  prompt of an earlier run (and the loading flag) stay as they were.
\<close>

theorem handleImageUpload_frame:
  "uploadedImage (handleImageUpload f url s) = Some \<lparr>image_file = f, previewUrl = url\<rparr>
   \<and> generatedImageUrl (handleImageUpload f url s) = None
   \<and> error (handleImageUpload f url s) = None
   \<and> appState (handleImageUpload f url s) = Idle
   \<and> userPrompt (handleImageUpload f url s) = userPrompt s
   \<and> intermediatePrompt (handleImageUpload f url s) = intermediatePrompt s
   \<and> isLoading (handleImageUpload f url s) = isLoading s"
  by (simp add: handleImageUpload_def)

text \<open>
  C10. In the initial state and after every operation, in any interleaving, a state in
  \<open>Success\<close> holds a generated image: each operation, and each state change of a whole
  run of \<open>handleSubmit\<close>, keeps this. The reason is the one the claim gives: the step that
  sets \<open>Success\<close> sets the image with it, and a step that clears the image leaves
  \<open>Success\<close>.
\<close>

theorem succeeded_has_image_preserved:
  "succeeded_has_image initial
   \<and> (succeeded_has_image s \<longrightarrow>
        succeeded_has_image (apply_operation op s)
        \<and> succeeded_has_image (handleImageUpload f url s)
        \<and> (\<forall>t \<in> set (commits (handleSubmit sv s)). succeeded_has_image t))
   \<and> (appState (apply_operation op s) = Success \<and> appState s \<noteq> Success \<longrightarrow>
        generatedImageUrl (apply_operation op s) \<noteq> None)
   \<and> (generatedImageUrl (apply_operation op s) = None \<and> generatedImageUrl s \<noteq> None \<longrightarrow>
        appState (apply_operation op s) \<noteq> Success)"
proof (intro conjI impI ballI)
  show "succeeded_has_image initial"
    by (simp add: succeeded_has_image_def initial_def)
next
  assume "succeeded_has_image s"
  then show "succeeded_has_image (apply_operation op s)"
    by (cases op)
      (auto simp: succeeded_has_image_def handleImageUpload_def setUserPrompt_def blocks
        split: option.splits)
next
  show "succeeded_has_image (handleImageUpload f url s)"
    by (simp add: succeeded_has_image_def handleImageUpload_def)
next
  fix t
  assume "succeeded_has_image s" and "t \<in> set (commits (handleSubmit sv s))"
  then show "succeeded_has_image t"
    by (auto simp: succeeded_has_image_def handleSubmit_def onloadend_def Let_def blocks
        split: option.splits read_outcome.splits sum.splits if_splits)
next
  assume "appState (apply_operation op s) = Success \<and> appState s \<noteq> Success"
  then show "generatedImageUrl (apply_operation op s) \<noteq> None"
    by (cases op)
      (auto simp: handleImageUpload_def setUserPrompt_def blocks split: option.splits if_splits)
next
  assume "generatedImageUrl (apply_operation op s) = None \<and> generatedImageUrl s \<noteq> None"
  then show "appState (apply_operation op s) \<noteq> Success"
    by (cases op)
      (auto simp: handleImageUpload_def setUserPrompt_def blocks split: option.splits if_splits)
qed

theorem succeeded_has_image_preserved_witness:
  "appState succeeded = Success \<and> generatedImageUrl succeeded \<noteq> None
   \<and> succeeded_has_image succeeded
   \<and> succeeded_has_image (apply_operation (Upload bicycle ''blob:2'') succeeded)
   \<and> succeeded_has_image (apply_operation (Submit None) succeeded)
   \<and> appState (apply_operation (ImageResolved ''QUJD'')
        (apply_operation (DescriptionResolved ''A red bicycle'')
          (apply_operation (Submit None) ready))) = Success
   \<and> generatedImageUrl (apply_operation (ImageResolved ''QUJD'')
        (apply_operation (DescriptionResolved ''A red bicycle'')
          (apply_operation (Submit None) ready))) \<noteq> None"
  using
    succeeded_has_image_preserved [of succeeded "Upload bicycle ''blob:2''" bicycle "''blob:2''"
      both_succeed]
    succeeded_has_image_preserved [of succeeded "Submit None" bicycle "''blob:2''" both_succeed]
    succeeded_has_image_preserved [of
      "apply_operation (DescriptionResolved ''A red bicycle'') (apply_operation (Submit None) ready)"
      "ImageResolved ''QUJD''" bicycle "''blob:2''" both_succeed]
  by (simp add: succeeded_eq ready_eq trim_sample succeeded_has_image_def blocks)

end
